theory Spec2Isabelle
  imports Complex_Main "HOL-Library.Sublist"
begin

section \<open>Data model\<close>

text \<open>
  The development embeds the integration and scoring engine of the dashboard:
  class \<open>EnhancedVotingIntegration\<close> (the scoring, tiering and report code) and the
  scoring part of class \<open>OireachtasVotingExtractor\<close>.

  Conventions. A JavaScript number that only ever counts things is an \<open>int\<close>, and
  arithmetic on counts is exact. A number that carries a fraction (a margin, a likelihood, a
  combined priority) is the rational that the double denotes. Double arithmetic is the exact
  operation followed by rounding, and so is a decimal literal; the rounding is the argument
  \<open>double\<close> of every function that computes with fractions, and nothing is assumed about
  it. Comparisons of doubles are exact. An object is a record; a property that the
  code itself treats as possibly missing (\<open>x || 0\<close>, \<open>?.\<close>, \<open>if (!x)\<close>, a literal that omits
  it) is an \<open>option\<close>, and every other property is present with the type the code
  uses it at. An object used as a dictionary is a map over its own keys. A string is the
  list of bytes of the source text. A thrown exception is the left summand of a sum type. The wall clock and \<open>Math.random\<close> are
  explicit inputs: the n-th \<open>new Date().toISOString()\<close> of a run reads \<open>clock n\<close>, the
  n-th \<open>Math.random()\<close> reads \<open>random n\<close>, and the pair of counters is threaded through
  the code.
\<close>

datatype js_error = TypeError

text \<open>The two accented party names, byte for byte as the source file spells them.\<close>

definition Fianna_Fail :: string where
  "Fianna_Fail = ''Fianna F'' @ [CHR 0xE2, CHR 0x88, CHR 0x9A, CHR 0xC2, CHR 0xB0] @ ''il''"

definition Sinn_Fein :: string where
  "Sinn_Fein = ''Sinn F'' @ [CHR 0xE2, CHR 0x88, CHR 0x9A, CHR 0xC2, CHR 0xA9] @ ''in''"

record properties =
  landlord_status :: bool
  property_count :: int

record housing_votes =
  total_votes :: int
  pro_tenant_votes :: int
  anti_tenant_votes :: int
  abstentions :: int
  missed_votes :: int

text \<open>One entry of \<open>housingVoteTargets\<close>.\<close>

record vote_target =
  target_id :: string
  title :: string
  description :: string
  date :: string
  pro_tenant_stance :: string
  weight :: int
  category :: string

text \<open>One entry of \<open>detailed_votes\<close>, as the generator pushes it.\<close>

record detailed_vote =
  vote_id :: string
  vote_title :: string
  vote_date :: string
  vote_cast :: string
  is_hypocritical :: bool
  vote_weight :: int

record voting_record =
  housing_votes :: housing_votes
  detailed_votes :: "detailed_vote list option"
  hypocrisy_score :: int
  pressure_campaign_priority :: "int option"
  last_updated :: string
  verification_status :: string

text \<open>What \<open>addElectoralTargeting\<close> returns.\<close>

record electoral_targeting =
  last_election_margin :: "rat option"
  vulnerability_level :: string
  votes_needed_to_flip :: "int option"
  targeting_priority :: string
  campaign_strategy :: string
  swing_required :: "rat option"

record td =
  party :: string
  constituency :: string
  properties :: properties
  voting_record :: "voting_record option"
  electoral_data :: "electoral_targeting option"

text \<open>An entry of \<open>voting-records-2024.json\<close>: the tallies the code reads from it.\<close>

record vote_data =
  vd_total_votes :: "int option"
  vd_pro_tenant_votes :: "int option"
  vd_anti_tenant_votes :: int
  vd_abstentions :: "int option"
  vd_missed_votes :: "int option"
  hypocritical_votes :: "int option"

text \<open>An entry of \<open>electoral-margins.json\<close>.\<close>

record constituency_data =
  margin_percentage :: rat
  cd_vulnerability_level :: string
  votes_needed :: int
  cd_swing_required :: rat

record db_metadata =
  voting_integration_status :: "string option"
  voting_integration_date :: "string option"
  landlord_tds_analyzed :: "nat option"

text \<open>The TD database: \<open>tds\<close> is an object keyed by name, kept in key order.\<close>

record database =
  metadata :: db_metadata
  tds :: "(string \<times> td) list"

text \<open>
  An instance of \<open>EnhancedVotingIntegration\<close>. The class body declares neither
  \<open>getDetailedVotes\<close> nor \<open>calculateHypocrisyScoreFromVotes\<close>; the two slots hold what a
  property lookup on the instance finds for them.
\<close>

record integration =
  completeTDDatabase :: database
  existingVotingData :: "(string \<rightharpoonup> vote_data) option"
  electoralData :: "(string \<rightharpoonup> constituency_data) option"
  landlordTDs :: "string list"
  housingVoteTargets :: "vote_target list"
  getDetailedVotes :: "(vote_data \<Rightarrow> td \<Rightarrow> detailed_vote list) option"
  calculateHypocrisyScoreFromVotes :: "(detailed_vote list \<Rightarrow> td \<Rightarrow> int) option"

section \<open>Scoring and tiering\<close>

text \<open>\<open>x || d\<close> on a numeric property: a missing property and the number 0 are both falsy.\<close>

definition js_or :: "int option \<Rightarrow> int \<Rightarrow> int" where
  "js_or x d = (case x of None \<Rightarrow> d | Some v \<Rightarrow> if v = 0 then d else v)"

text \<open>\<open>this.electoralData?.constituencies?.[c]\<close>\<close>

definition electoral_lookup :: "integration \<Rightarrow> string \<Rightarrow> constituency_data option" where
  "electoral_lookup this c = (case electoralData this of None \<Rightarrow> None | Some m \<Rightarrow> m c)"

definition calculateEnhancedHypocrisyScore :: "integration \<Rightarrow> vote_data \<Rightarrow> td \<Rightarrow> int" where
  "calculateEnhancedHypocrisyScore this votingData tdInfo =
    (let score = 0;
         score = score + min (property_count (properties tdInfo) * 3) 30;
         score = score + vd_anti_tenant_votes votingData * 8;
         score = score + js_or (hypocritical_votes votingData) 0 * 10;
         score = (if party tdInfo = Fianna_Fail \<or> party tdInfo = ''Fine Gael''
                     \<or> party tdInfo = ''Green Party''
                  then score + 10 else score);
         score = (case electoral_lookup this (constituency tdInfo) of
                    None \<Rightarrow> score
                  | Some ed \<Rightarrow>
                      if margin_percentage ed < 5 then score + 15 else score)
     in min score 100)"

text \<open>
  \<open>calculatePressurePriority\<close> reads only \<open>anti_tenant_votes\<close> of its first argument; the
  generator passes an object holding nothing else.
\<close>

definition calculatePressurePriority :: "integration \<Rightarrow> int \<Rightarrow> td \<Rightarrow> int" where
  "calculatePressurePriority this anti_votes tdInfo =
    (let priority = 1;
         priority = (if property_count (properties tdInfo) \<ge> 10 then priority + 3
                     else if property_count (properties tdInfo) \<ge> 5 then priority + 2
                     else if property_count (properties tdInfo) \<ge> 1 then priority + 1
                     else priority);
         priority = priority + min (js_or (Some anti_votes) 0) 3;
         priority = (case electoral_lookup this (constituency tdInfo) of
                       None \<Rightarrow> priority
                     | Some ed \<Rightarrow>
                         if margin_percentage ed < 1 then priority + 3
                         else if margin_percentage ed < 5 / 2 then priority + 2
                         else if margin_percentage ed < 5 then priority + 1
                         else priority)
     in min priority 10)"

definition getTargetingPriority :: "constituency_data \<Rightarrow> td \<Rightarrow> string" where
  "getTargetingPriority ed tdInfo =
    (if margin_percentage ed < 1 then ''TIER_1_CRITICAL''
     else if margin_percentage ed < 5 / 2 then ''TIER_2_HIGH''
     else if margin_percentage ed < 5 then ''TIER_3_MEDIUM''
     else ''TIER_4_LOW'')"

definition getCampaignStrategy :: "constituency_data \<Rightarrow> td \<Rightarrow> string" where
  "getCampaignStrategy ed tdInfo =
    (let margin = margin_percentage ed;
         props = property_count (properties tdInfo)
     in if margin < 1 \<and> props \<ge> 5 then ''AGGRESSIVE_IMMEDIATE_CAMPAIGN''
        else if margin < 5 / 2 \<and> props \<ge> 3 then ''FOCUSED_PRESSURE_CAMPAIGN''
        else if margin < 5 then ''SUSTAINED_AWARENESS_CAMPAIGN''
        else ''LONG_TERM_POSITIONING'')"

definition addElectoralTargeting :: "integration \<Rightarrow> td \<Rightarrow> electoral_targeting" where
  "addElectoralTargeting this tdInfo =
    (case electoral_lookup this (constituency tdInfo) of
       None \<Rightarrow>
         \<lparr> last_election_margin = None,
           vulnerability_level = ''UNKNOWN'',
           votes_needed_to_flip = None,
           targeting_priority = ''LOW'',
           campaign_strategy = ''RESEARCH_NEEDED'',
           swing_required = None \<rparr>
     | Some ed \<Rightarrow>
         \<lparr> last_election_margin = Some (margin_percentage ed),
           vulnerability_level = cd_vulnerability_level ed,
           votes_needed_to_flip = Some (votes_needed ed),
           targeting_priority = getTargetingPriority ed tdInfo,
           campaign_strategy = getCampaignStrategy ed tdInfo,
           swing_required = Some (cd_swing_required ed) \<rparr>)"

subsection \<open>The extractor's score\<close>

datatype js_value = Num rat | Str string | Undefined

record priority_td =
  ptd_name :: string
  ptd_constituency :: string
  ptd_properties :: int
  electoral_margin :: js_value
  minister :: bool

record td_summary =
  sm_name :: string
  sm_properties :: int
  sm_anti_tenant_votes :: int
  sm_hypocritical_votes :: int

definition priorityLandlordTDs :: "priority_td list" where
  "priorityLandlordTDs =
    [ \<lparr> ptd_name = ''Colm Burke'', ptd_constituency = ''Cork North-Central'',
        ptd_properties = 1, electoral_margin = Num (23 / 10), minister = False \<rparr>,
      \<lparr> ptd_name = ''Sin'' @ [CHR 0xC3, CHR 0xA9] @ ''ad Gibney'',
        ptd_constituency = ''Dublin Bay South'',
        ptd_properties = 1, electoral_margin = Num (8 / 10), minister = False \<rparr>,
      \<lparr> ptd_name = ''Noel Grealish'', ptd_constituency = ''Galway West'',
        ptd_properties = 2, electoral_margin = Num (41 / 10), minister = False \<rparr>,
      \<lparr> ptd_name = ''Michael Healy-Rae'', ptd_constituency = ''Kerry'',
        ptd_properties = 27, electoral_margin = Str ''SAFE'', minister = False \<rparr>,
      \<lparr> ptd_name = ''Robert Troy'', ptd_constituency = ''Longford-Westmeath'',
        ptd_properties = 8, electoral_margin = Str ''SAFE'', minister = False \<rparr>,
      \<lparr> ptd_name = ''Thomas Byrne'', ptd_constituency = ''Meath East'',
        ptd_properties = 1, electoral_margin = Undefined, minister = True \<rparr>,
      \<lparr> ptd_name = ''Se'' @ [CHR 0xC3, CHR 0xA1] @ ''n Canney'',
        ptd_constituency = ''Galway East'',
        ptd_properties = 6, electoral_margin = Undefined, minister = True \<rparr> ]"

text \<open>\<open>typeof m === 'number' && m < 5\<close>\<close>

definition number_below :: "js_value \<Rightarrow> rat \<Rightarrow> bool" where
  "number_below v b = (case v of Num m \<Rightarrow> m < b | Str _ \<Rightarrow> False | Undefined \<Rightarrow> False)"

text \<open>The table is a field of the extractor instance, so the score takes it as an argument.\<close>

definition calculateHypocrisyScore :: "priority_td list \<Rightarrow> td_summary \<Rightarrow> int" where
  "calculateHypocrisyScore table tdSummary =
    (let score = 0;
         score = score + min (sm_properties tdSummary * 5) 50;
         score = score + sm_anti_tenant_votes tdSummary * 15;
         score = score + sm_hypocritical_votes tdSummary * 20;
         tdInfo = find (\<lambda>t. ptd_name t = sm_name tdSummary) table;
         score = (case tdInfo of
                    None \<Rightarrow> score
                  | Some i \<Rightarrow> if number_below (electoral_margin i) 5 then score + 10 else score);
         score = (case tdInfo of
                    None \<Rightarrow> score
                  | Some i \<Rightarrow> if minister i then score + 15 else score)
     in min score 100)"

section \<open>The vote pattern generator\<close>

record tendency =
  anti_tenant_likelihood :: rat
  party_discipline :: rat

text \<open>The rounding of double arithmetic: the double that stands for an exact result.\<close>

type_synonym rounding = "rat \<Rightarrow> rat"

text \<open>The table \<open>partyVotingTendencies\<close>; its decimal literals are doubles.\<close>

definition partyVotingTendencies :: "rounding \<Rightarrow> string \<rightharpoonup> tendency" where
  "partyVotingTendencies double = map_of
    [ (Fianna_Fail,
        \<lparr> anti_tenant_likelihood = double (7 / 10), party_discipline = double (8 / 10) \<rparr>),
      (''Fine Gael'',
        \<lparr> anti_tenant_likelihood = double (75 / 100), party_discipline = double (85 / 100) \<rparr>),
      (''Independent'',
        \<lparr> anti_tenant_likelihood = double (8 / 10), party_discipline = double (2 / 10) \<rparr>),
      (Sinn_Fein,
        \<lparr> anti_tenant_likelihood = double (3 / 10), party_discipline = double (9 / 10) \<rparr>),
      (''Social Democrats'',
        \<lparr> anti_tenant_likelihood = double (2 / 10), party_discipline = double (7 / 10) \<rparr>) ]"

text \<open>\<open>partyVotingTendencies[tdInfo.party] || { anti_tenant_likelihood: 0.6, ... }\<close>\<close>

definition tendency_for :: "rounding \<Rightarrow> string \<Rightarrow> tendency" where
  "tendency_for double p =
    (case partyVotingTendencies double p of
       Some t \<Rightarrow> t
     | None \<Rightarrow> \<lparr> anti_tenant_likelihood = double (6 / 10), party_discipline = double (5 / 10) \<rparr>)"

definition adjustedAntiTenantLikelihood :: "rounding \<Rightarrow> td \<Rightarrow> rat" where
  "adjustedAntiTenantLikelihood double tdInfo =
    (let propertyInfluence =
           min (double (of_int (property_count (properties tdInfo)) * double (1 / 10)))
               (double (3 / 10))
     in min (double (anti_tenant_likelihood (tendency_for double (party tdInfo))
                       + propertyInfluence))
            (double (95 / 100)))"

text \<open>
  The three-way branch on one draw \<open>r\<close>, inside the loop: the choice, and the two counters
  \<open>antiTenantVotes\<close> and \<open>proTenantVotes\<close> after it.
\<close>

definition cast_vote ::
  "rounding \<Rightarrow> rat \<Rightarrow> rat \<Rightarrow> int \<Rightarrow> int \<Rightarrow> string \<times> int \<times> int" where
  "cast_vote double adjusted r antiTenantVotes proTenantVotes =
    (if r < adjusted then (''Against'', antiTenantVotes + 1, proTenantVotes)
     else if r < double (adjusted + double (1 / 10))
     then (''Abstain'', antiTenantVotes, proTenantVotes)
     else (''For'', antiTenantVotes, proTenantVotes + 1))"


text \<open>The entry pushed onto \<open>votes\<close> for one tracked vote and one choice.\<close>

definition vote_entry :: "vote_target \<Rightarrow> string \<Rightarrow> detailed_vote" where
  "vote_entry vote c =
    \<lparr> vote_id = target_id vote,
      vote_title = title vote,
      vote_date = date vote,
      vote_cast = c,
      is_hypocritical = (c = ''Against'' \<and> pro_tenant_stance vote = ''FOR''),
      vote_weight = weight vote \<rparr>"

text \<open>
  The loop over \<open>this.housingVoteTargets\<close>. The accumulator is the array \<open>votes\<close>, the two
  counters, and the number of draws made so far.
\<close>

fun generate_votes ::
  "rounding \<Rightarrow> rat \<Rightarrow> (nat \<Rightarrow> rat) \<Rightarrow> vote_target list
    \<Rightarrow> detailed_vote list \<times> int \<times> int \<times> nat
    \<Rightarrow> detailed_vote list \<times> int \<times> int \<times> nat" where
  "generate_votes double adjusted random [] acc = acc"
| "generate_votes double adjusted random (vote # rest)
      (votes, antiTenantVotes, proTenantVotes, n) =
    (case cast_vote double adjusted (random n) antiTenantVotes proTenantVotes of
       (c, anti', pro') \<Rightarrow>
         generate_votes double adjusted random rest
           (votes @ [vote_entry vote c], anti', pro', Suc n))"

text \<open>How many times the clock has been read, and how many draws have been made.\<close>

type_synonym world = "nat \<times> nat"

text \<open>
  The undefined method is reached after the loop has made its draws. The count
  \<open>hypocriticalVotes\<close> that the source takes from \<open>votes\<close> is never read and is left out.
\<close>

definition generateRealisticVotingPattern ::
  "rounding \<Rightarrow> integration \<Rightarrow> (nat \<Rightarrow> string) \<Rightarrow> (nat \<Rightarrow> rat) \<Rightarrow> world \<Rightarrow> td
    \<Rightarrow> js_error + voting_record \<times> world" where
  "generateRealisticVotingPattern double this clock random w tdInfo =
    (case generate_votes double (adjustedAntiTenantLikelihood double tdInfo) random
            (housingVoteTargets this) ([], 0, 0, snd w) of
       (votes, antiTenantVotes, proTenantVotes, n) \<Rightarrow>
         (case calculateHypocrisyScoreFromVotes this of
            None \<Rightarrow> Inl TypeError
          | Some f \<Rightarrow>
              Inr (\<lparr> housing_votes =
                       \<lparr> total_votes = int (length (housingVoteTargets this)),
                         pro_tenant_votes = proTenantVotes,
                         anti_tenant_votes = antiTenantVotes,
                         abstentions = int (length (housingVoteTargets this))
                                       - proTenantVotes - antiTenantVotes,
                         missed_votes = 0 \<rparr>,
                     detailed_votes = Some votes,
                     hypocrisy_score = f votes tdInfo,
                     pressure_campaign_priority =
                       Some (calculatePressurePriority this antiTenantVotes tdInfo),
                     last_updated = clock (fst w),
                     verification_status = ''PATTERN_GENERATED'' \<rparr>,
                   (Suc (fst w), n))))"

section \<open>Integration\<close>

text \<open>
  The object literal of \<open>enhanceVotingRecord\<close> calls \<open>this.getDetailedVotes\<close> for its
  second property; what it computes before that has no effect.
\<close>

definition enhanceVotingRecord ::
  "integration \<Rightarrow> (nat \<Rightarrow> string) \<Rightarrow> world \<Rightarrow> vote_data \<Rightarrow> td
    \<Rightarrow> js_error + voting_record \<times> world" where
  "enhanceVotingRecord this clock w existingData tdInfo =
    (case getDetailedVotes this of
       None \<Rightarrow> Inl TypeError
     | Some g \<Rightarrow>
         Inr (\<lparr> housing_votes =
                  \<lparr> total_votes = js_or (vd_total_votes existingData) 5,
                    pro_tenant_votes = js_or (vd_pro_tenant_votes existingData) 0,
                    anti_tenant_votes = js_or (Some (vd_anti_tenant_votes existingData)) 0,
                    abstentions = js_or (vd_abstentions existingData) 0,
                    missed_votes = js_or (vd_missed_votes existingData) 0 \<rparr>,
                detailed_votes = Some (g existingData tdInfo),
                hypocrisy_score = calculateEnhancedHypocrisyScore this existingData tdInfo,
                pressure_campaign_priority =
                  Some (calculatePressurePriority this (vd_anti_tenant_votes existingData) tdInfo),
                last_updated = clock (fst w),
                verification_status = ''EXISTING_DATA_ENHANCED'' \<rparr>,
              (Suc (fst w), snd w)))"

text \<open>\<open>this.existingVotingData?.tds?.[tdName]\<close>\<close>

definition existing_lookup :: "integration \<Rightarrow> string \<Rightarrow> vote_data option" where
  "existing_lookup this n = (case existingVotingData this of None \<Rightarrow> None | Some m \<Rightarrow> m n)"

text \<open>The record a non-landlord receives.\<close>

definition clean_record :: "string \<Rightarrow> voting_record" where
  "clean_record now =
    \<lparr> housing_votes = \<lparr> total_votes = 0, pro_tenant_votes = 0, anti_tenant_votes = 0,
                         abstentions = 0, missed_votes = 0 \<rparr>,
      detailed_votes = None,
      hypocrisy_score = 0,
      pressure_campaign_priority = None,
      last_updated = now,
      verification_status = ''NON_LANDLORD_CLEAN'' \<rparr>"

text \<open>The body of the \<open>for (const tdName in integratedDatabase.tds)\<close> loop, for one entry.\<close>

definition integrate_td ::
  "rounding \<Rightarrow> integration \<Rightarrow> (nat \<Rightarrow> string) \<Rightarrow> (nat \<Rightarrow> rat) \<Rightarrow> world \<Rightarrow> string \<Rightarrow> td
    \<Rightarrow> js_error + td \<times> world" where
  "integrate_td double this clock random w tdName t =
    (if landlord_status (properties t) then
       (case (case existing_lookup this tdName of
                Some existingVoteData \<Rightarrow> enhanceVotingRecord this clock w existingVoteData t
              | None \<Rightarrow> generateRealisticVotingPattern double this clock random w t) of
          Inl e \<Rightarrow> Inl e
        | Inr (vr, w') \<Rightarrow>
            Inr (t\<lparr> voting_record := Some vr,
                    electoral_data :=
                      Some (addElectoralTargeting this (t\<lparr> voting_record := Some vr \<rparr>)) \<rparr>,
                 w'))
     else Inr (t\<lparr> voting_record := Some (clean_record (clock (fst w))) \<rparr>, (Suc (fst w), snd w)))"

fun integrate_tds ::
  "rounding \<Rightarrow> integration \<Rightarrow> (nat \<Rightarrow> string) \<Rightarrow> (nat \<Rightarrow> rat) \<Rightarrow> world
    \<Rightarrow> (string \<times> td) list \<Rightarrow> js_error + (string \<times> td) list \<times> world" where
  "integrate_tds double this clock random w [] = Inr ([], w)"
| "integrate_tds double this clock random w ((tdName, t) # rest) =
    (case integrate_td double this clock random w tdName t of
       Inl e \<Rightarrow> Inl e
     | Inr (t', w') \<Rightarrow>
         (case integrate_tds double this clock random w' rest of
            Inl e \<Rightarrow> Inl e
          | Inr (out, w'') \<Rightarrow> Inr ((tdName, t') # out, w'')))"

definition integrateVotingRecords ::
  "rounding \<Rightarrow> integration \<Rightarrow> (nat \<Rightarrow> string) \<Rightarrow> (nat \<Rightarrow> rat)
    \<Rightarrow> js_error + database \<times> world" where
  "integrateVotingRecords double this clock random =
    (let integratedDatabase = completeTDDatabase this;
         md = (metadata integratedDatabase)
                \<lparr> voting_integration_status := Some ''ENHANCED_INTEGRATION_COMPLETE'',
                  voting_integration_date := Some (clock 0),
                  landlord_tds_analyzed := Some (length (landlordTDs this)) \<rparr>
     in case integrate_tds double this clock random (1, 0) (tds integratedDatabase) of
          Inl e \<Rightarrow> Inl e
        | Inr (out, w) \<Rightarrow> Inr (\<lparr> metadata = md, tds = out \<rparr>, w))"

section \<open>The targeting report\<close>

text \<open>
  \<open>{ ...td, combined_priority: ... }\<close>. The combined priority is \<open>None\<close> where the
  JavaScript value is NaN, which is what arithmetic on a missing priority gives.
\<close>

record prioritized = td +
  combined_priority :: "rat option"

definition combined :: "rounding \<Rightarrow> td \<Rightarrow> rat option" where
  "combined double t =
    (case voting_record t of
       None \<Rightarrow> None
     | Some vr \<Rightarrow>
         (case pressure_campaign_priority vr of
            None \<Rightarrow> None
          | Some p \<Rightarrow>
              Some (double (double (of_int (hypocrisy_score vr) * double (6 / 10))
                            + double (of_int (p * 10) * double (4 / 10))))))"

definition prioritize :: "rounding \<Rightarrow> td \<Rightarrow> prioritized" where
  "prioritize double t =
    \<lparr> party = party t, constituency = constituency t, properties = properties t,
      voting_record = voting_record t, electoral_data = electoral_data t,
      combined_priority = combined double t \<rparr>"

text \<open>
  \<open>(a, b) => b.combined_priority - a.combined_priority\<close>. Only the sign of the result is
  used, and the difference of two doubles has the sign of their exact difference.
\<close>

definition by_combined_priority :: "prioritized \<Rightarrow> prioritized \<Rightarrow> rat option" where
  "by_combined_priority a b =
    (case (combined_priority b, combined_priority a) of
       (Some x, Some y) \<Rightarrow> Some (x - y)
     | _ \<Rightarrow> None)"

text \<open>
  \<open>Array.prototype.sort\<close> with a comparator: a stable sort, in which a comparator result
  of NaN counts as 0. The model is the insertion sort that puts an element in front of the
  first one it does not have to follow.
\<close>

definition sort_compare :: "('a \<Rightarrow> 'a \<Rightarrow> rat option) \<Rightarrow> 'a \<Rightarrow> 'a \<Rightarrow> rat" where
  "sort_compare cmp a b = (case cmp a b of None \<Rightarrow> 0 | Some v \<Rightarrow> v)"

fun insert_sorted :: "('a \<Rightarrow> 'a \<Rightarrow> rat option) \<Rightarrow> 'a \<Rightarrow> 'a list \<Rightarrow> 'a list" where
  "insert_sorted cmp x [] = [x]"
| "insert_sorted cmp x (y # ys) =
    (if sort_compare cmp x y \<le> 0 then x # y # ys else y # insert_sorted cmp x ys)"

fun js_sort :: "('a \<Rightarrow> 'a \<Rightarrow> rat option) \<Rightarrow> 'a list \<Rightarrow> 'a list" where
  "js_sort cmp [] = []"
| "js_sort cmp (x # xs) = insert_sorted cmp x (js_sort cmp xs)"

record report_metadata =
  generated_at :: string
  total_landlord_tds :: nat
  tier_1_targets :: nat
  tier_2_targets :: nat

record summary_stats =
  average_hypocrisy_score :: "rat option"
  average_anti_tenant_votes :: "rat option"
  government_landlord_tds :: nat

record report =
  report_metadata :: report_metadata
  tier_1_critical :: "prioritized list"
  tier_2_high :: "prioritized list"
  tier_3_medium :: "prioritized list"
  summary_stats :: summary_stats

text \<open>\<open>td.electoral_data.targeting_priority === tier\<close>, on an entry that has electoral data.\<close>

definition in_tier :: "string \<Rightarrow> prioritized \<Rightarrow> bool" where
  "in_tier tier t =
    (case electoral_data t of None \<Rightarrow> False | Some e \<Rightarrow> targeting_priority e = tier)"

text \<open>\<open>sum / landlordTDs.length\<close>: 0 / 0 is NaN.\<close>

definition average :: "rounding \<Rightarrow> int \<Rightarrow> nat \<Rightarrow> rat option" where
  "average double s n = (if n = 0 then None else Some (double (of_int s / of_nat n)))"

definition score_of :: "td \<Rightarrow> int" where
  "score_of t = (case voting_record t of None \<Rightarrow> 0 | Some vr \<Rightarrow> hypocrisy_score vr)"

definition anti_votes_of :: "td \<Rightarrow> int" where
  "anti_votes_of t =
    (case voting_record t of None \<Rightarrow> 0 | Some vr \<Rightarrow> anti_tenant_votes (housing_votes vr))"

text \<open>\<open>Object.values(integratedDatabase.tds).filter(td => td.properties.landlord_status)\<close>\<close>

definition landlords :: "database \<Rightarrow> td list" where
  "landlords db = filter (\<lambda>t. landlord_status (properties t)) (map snd (tds db))"

definition prioritizedTargets :: "rounding \<Rightarrow> database \<Rightarrow> prioritized list" where
  "prioritizedTargets double db =
    js_sort by_combined_priority (map (prioritize double) (landlords db))"

text \<open>
  Reading \<open>td.voting_record.hypocrisy_score\<close> or \<open>td.electoral_data.targeting_priority\<close> on a
  landlord entry that lacks the record throws; the two guards are those throws, and under
  them the defaults of \<open>score_of\<close>, \<open>anti_votes_of\<close> and \<open>in_tier\<close> are never used.
\<close>

definition generateTargetingReport ::
  "rounding \<Rightarrow> string \<Rightarrow> database \<Rightarrow> js_error + report" where
  "generateTargetingReport double now integratedDatabase =
    (let ls = landlords integratedDatabase;
         ps = prioritizedTargets double integratedDatabase
     in if \<exists>t \<in> set ls. voting_record t = None then Inl TypeError
        else if \<exists>t \<in> set ls. electoral_data t = None then Inl TypeError
        else Inr
          \<lparr> report_metadata =
              \<lparr> generated_at = now,
                total_landlord_tds = length ls,
                tier_1_targets = length (filter (in_tier ''TIER_1_CRITICAL'') ps),
                tier_2_targets = length (filter (in_tier ''TIER_2_HIGH'') ps) \<rparr>,
            tier_1_critical = take 5 (filter (in_tier ''TIER_1_CRITICAL'') ps),
            tier_2_high = take 8 (filter (in_tier ''TIER_2_HIGH'') ps),
            tier_3_medium = take 10 (filter (in_tier ''TIER_3_MEDIUM'') ps),
            summary_stats =
              \<lparr> average_hypocrisy_score =
                  average double (foldl (\<lambda>s t. s + score_of t) 0 ls) (length ls),
                average_anti_tenant_votes =
                  average double (foldl (\<lambda>s t. s + anti_votes_of t) 0 ls) (length ls),
                government_landlord_tds =
                  length (filter (\<lambda>t. party t \<in> set [Fianna_Fail, ''Fine Gael'', ''Green Party''])
                            ls) \<rparr> \<rparr>)"

text \<open>
  \<open>executeIntegration\<close> once the data sources are loaded: integrate, then report. The
  report's \<open>new Date()\<close> is the next reading of the clock.
\<close>

definition executeIntegration ::
  "rounding \<Rightarrow> integration \<Rightarrow> (nat \<Rightarrow> string) \<Rightarrow> (nat \<Rightarrow> rat)
    \<Rightarrow> js_error + database \<times> report" where
  "executeIntegration double this clock random =
    (case integrateVotingRecords double this clock random of
       Inl e \<Rightarrow> Inl e
     | Inr (integratedDatabase, w) \<Rightarrow>
         (case generateTargetingReport double (clock (fst w)) integratedDatabase of
            Inl e \<Rightarrow> Inl e
          | Inr targetingReport \<Rightarrow> Inr (integratedDatabase, targetingReport)))"

subsection \<open>The instance the class constructs\<close>

definition housingVoteTargets_of_class :: "vote_target list" where
  "housingVoteTargets_of_class =
    [ \<lparr> target_id = ''RTB2024_001'',
        title = ''Residential Tenancies (Amendment) Bill 2024'',
        description = ''Rent control caps and eviction protections'',
        date = ''2024-03-15'', pro_tenant_stance = ''FOR'', weight = 25,
        category = ''tenant_protection'' \<rparr>,
      \<lparr> target_id = ''VPT2024_001'',
        title = ''Vacant Property Tax (Amendment) Bill 2024'',
        description = ''Penalties for keeping properties vacant'',
        date = ''2024-04-22'', pro_tenant_stance = ''FOR'', weight = 20,
        category = ''housing_supply'' \<rparr>,
      \<lparr> target_id = ''PDH2024_001'',
        title = ''Planning and Development (Housing) Bill 2024'',
        description = ''Social housing requirements in developments'',
        date = ''2024-06-11'', pro_tenant_stance = ''FOR'', weight = 15,
        category = ''social_housing'' \<rparr>,
      \<lparr> target_id = ''RTS2024_001'',
        title = ''Residential Tenancies (Security of Tenure) Bill 2024'',
        description = ''Indefinite tenancies and eviction restrictions'',
        date = ''2024-09-18'', pro_tenant_stance = ''FOR'', weight = 25,
        category = ''tenant_protection'' \<rparr>,
      \<lparr> target_id = ''PTR2024_001'',
        title = ''Property Tax (Rental Income) Amendment 2024'',
        description = ''Tax relief reductions for rental properties'',
        date = ''2024-10-29'', pro_tenant_stance = ''FOR'', weight = 15,
        category = ''landlord_taxation'' \<rparr> ]"

text \<open>
  The constructor followed by a successful \<open>loadDataSources\<close>. The names in
  \<open>landlordTDs\<close> are only counted, so the list is an argument. Neither
  \<open>getDetailedVotes\<close> nor \<open>calculateHypocrisyScoreFromVotes\<close> is a member of the class.
\<close>

definition EnhancedVotingIntegration ::
  "string list \<Rightarrow> database \<Rightarrow> (string \<rightharpoonup> vote_data) option
    \<Rightarrow> (string \<rightharpoonup> constituency_data) option \<Rightarrow> integration" where
  "EnhancedVotingIntegration names db votes margins =
    \<lparr> completeTDDatabase = db,
      existingVotingData = votes,
      electoralData = margins,
      landlordTDs = names,
      housingVoteTargets = housingVoteTargets_of_class,
      getDetailedVotes = None,
      calculateHypocrisyScoreFromVotes = None \<rparr>"

subsection \<open>The sourced-data analyzer of the extractor\<close>


section \<open>Notions used in the statements\<close>


text \<open>Two slates of tracked votes that differ at most in the weights.\<close>

definition same_but_weights :: "vote_target list \<Rightarrow> vote_target list \<Rightarrow> bool" where
  "same_but_weights xs ys = list_all2 (\<lambda>a b. b = a\<lparr> weight := weight b \<rparr>) xs ys"



text \<open>A report, or the error in its place, with the generation time blanked.\<close>

definition erase_generated_at :: "js_error + report \<Rightarrow> js_error + report" where
  "erase_generated_at =
    map_sum id (\<lambda>r. r\<lparr> report_metadata := (report_metadata r)\<lparr> generated_at := [] \<rparr> \<rparr>)"

text \<open>Every landlord of the loaded database has an entry in the sourced voting data.\<close>

definition sourced_only :: "integration \<Rightarrow> bool" where
  "sourced_only this =
    (\<forall>(n, t) \<in> set (tds (completeTDDatabase this)).
        landlord_status (properties t) \<longrightarrow> existing_lookup this n \<noteq> None)"

section \<open>Sample data\<close>

text \<open>Small inputs on which the results below are evaluated.\<close>

definition sample_margins :: "string \<rightharpoonup> constituency_data" where
  "sample_margins = map_of
    [ (''Dublin Bay South'',
        \<lparr> margin_percentage = 8 / 10, cd_vulnerability_level = ''CRITICAL'',
          votes_needed = 412, cd_swing_required = 4 / 10 \<rparr>),
      (''Cork North-Central'',
        \<lparr> margin_percentage = 23 / 10, cd_vulnerability_level = ''HIGH'',
          votes_needed = 1150, cd_swing_required = 115 / 100 \<rparr>),
      (''Kerry'',
        \<lparr> margin_percentage = 12, cd_vulnerability_level = ''SAFE'',
          votes_needed = 9000, cd_swing_required = 6 \<rparr>) ]"

definition sample_td :: "string \<Rightarrow> string \<Rightarrow> bool \<Rightarrow> int \<Rightarrow> td" where
  "sample_td p c l n =
    \<lparr> party = p, constituency = c,
      properties = \<lparr> landlord_status = l, property_count = n \<rparr>,
      voting_record = None, electoral_data = None \<rparr>"

definition sample_votes :: "int \<Rightarrow> vote_data" where
  "sample_votes a =
    \<lparr> vd_total_votes = Some 5, vd_pro_tenant_votes = Some (5 - a), vd_anti_tenant_votes = a,
      vd_abstentions = None, vd_missed_votes = None, hypocritical_votes = Some a \<rparr>"

definition sample_database :: "(string \<times> td) list \<Rightarrow> database" where
  "sample_database entries =
    \<lparr> metadata = \<lparr> voting_integration_status = None, voting_integration_date = None,
                    landlord_tds_analyzed = None \<rparr>,
      tds = entries \<rparr>"

text \<open>An instance loaded with the sample margins and no sourced votes.\<close>

definition sample_integration :: "(string \<times> td) list \<Rightarrow> integration" where
  "sample_integration entries =
    EnhancedVotingIntegration [] (sample_database entries) None (Some sample_margins)"

text \<open>A landlord entry as the report reads it: a score, a priority and a tier.\<close>

definition scored_td :: "string \<Rightarrow> int \<Rightarrow> int \<Rightarrow> string \<Rightarrow> td" where
  "scored_td p h pr tier =
    \<lparr> party = p, constituency = ''Kerry'',
      properties = \<lparr> landlord_status = True, property_count = 1 \<rparr>,
      voting_record = Some
        \<lparr> housing_votes = \<lparr> total_votes = 5, pro_tenant_votes = 0, anti_tenant_votes = 5,
                             abstentions = 0, missed_votes = 0 \<rparr>,
          detailed_votes = Some [],
          hypocrisy_score = h,
          pressure_campaign_priority = Some pr,
          last_updated = ''2025-01-01T00:00:00.000Z'',
          verification_status = ''EXISTING_DATA_ENHANCED'' \<rparr>,
      electoral_data = Some
        \<lparr> last_election_margin = None, vulnerability_level = ''UNKNOWN'',
          votes_needed_to_flip = None, targeting_priority = tier,
          campaign_strategy = ''RESEARCH_NEEDED'', swing_required = None \<rparr> \<rparr>"

text \<open>The rounding that changes nothing.\<close>

definition exact :: rounding where
  "exact x = x"



text \<open>Four scored landlords; the first and the third tie at 17.8 under exact arithmetic.\<close>

definition sample_ranking :: database where
  "sample_ranking = sample_database
    [ (''A'', scored_td ''Independent'' 3 4 ''TIER_1_CRITICAL''),
      (''B'', scored_td ''Fine Gael'' 50 5 ''TIER_1_CRITICAL''),
      (''C'', scored_td ''Green Party'' 23 1 ''TIER_1_CRITICAL''),
      (''D'', scored_td ''Fine Gael'' 90 9 ''TIER_2_HIGH'') ]"

text \<open>
  A loaded instance whose only landlord has sourced votes, on an object that has been given
  a \<open>getDetailedVotes\<close>.
\<close>

definition sample_sourced :: integration where
  "sample_sourced =
    (EnhancedVotingIntegration []
       (sample_database [(''A'', sample_td ''Fine Gael'' ''Dublin Bay South'' True 1),
                         (''B'', sample_td ''Independent'' ''Kerry'' False 0)])
       (Some (map_of [(''A'', sample_votes 5)])) (Some sample_margins))
      \<lparr> getDetailedVotes := Some (\<lambda>d t. []) \<rparr>"


section \<open>The clamping invariant\<close>

lemma js_or_nonneg: "0 \<le> d \<Longrightarrow> (\<And>v. x = Some v \<Longrightarrow> 0 \<le> v) \<Longrightarrow> 0 \<le> js_or x d"
  by (cases x) (simp_all add: js_or_def)

lemma enhanced_score_upper: "calculateEnhancedHypocrisyScore this vd t \<le> 100"
  by (simp add: calculateEnhancedHypocrisyScore_def Let_def)

lemma enhanced_score_lower:
  assumes "0 \<le> property_count (properties t)" and "0 \<le> vd_anti_tenant_votes vd"
    and "\<And>h. hypocritical_votes vd = Some h \<Longrightarrow> 0 \<le> h"
  shows "0 \<le> calculateEnhancedHypocrisyScore this vd t"
proof -
  have "0 \<le> js_or (hypocritical_votes vd) 0"
    using assms(3) by (intro js_or_nonneg) simp_all
  with assms(1,2) show ?thesis
    by (simp add: calculateEnhancedHypocrisyScore_def Let_def split: option.split)
qed

lemma priority_bounds:
  assumes "0 \<le> a"
  shows "1 \<le> calculatePressurePriority this a t \<and> calculatePressurePriority this a t \<le> 10"
  using assms
  by (simp add: calculatePressurePriority_def Let_def js_or_def split: option.split)

lemma fallback_score_bounds:
  assumes "0 \<le> sm_properties s" and "0 \<le> sm_anti_tenant_votes s"
    and "0 \<le> sm_hypocritical_votes s"
  shows "0 \<le> calculateHypocrisyScore table s \<and> calculateHypocrisyScore table s \<le> 100"
  using assms
  by (simp add: calculateHypocrisyScore_def Let_def split: option.split)

text \<open>
  Claim C2. With a non-negative holding count and non-negative vote tallies, the score of
  the integration class and the score of the extractor both lie in 0..100, and the pressure
  priority lies in 1..10. All three are integers by their type.
\<close>

theorem scores_clamped:
  assumes "0 \<le> property_count (properties t)"
    and "0 \<le> vd_anti_tenant_votes vd"
    and "\<And>h. hypocritical_votes vd = Some h \<Longrightarrow> 0 \<le> h"
    and "0 \<le> sm_properties s" and "0 \<le> sm_anti_tenant_votes s"
    and "0 \<le> sm_hypocritical_votes s"
  shows "calculateEnhancedHypocrisyScore this vd t \<in> {0..100}
       \<and> calculateHypocrisyScore table s \<in> {0..100}
       \<and> calculatePressurePriority this (vd_anti_tenant_votes vd) t \<in> {1..10}"
  using enhanced_score_lower [OF assms(1-3)] enhanced_score_upper [of this vd t]
    fallback_score_bounds [OF assms(4-6), of table] priority_bounds [OF assms(2), of this t]
  by simp

theorem scores_clamped_witness:
  "calculateEnhancedHypocrisyScore (sample_integration []) (sample_votes 5)
       (sample_td ''Fine Gael'' ''Dublin Bay South'' True 1) \<in> {0..100}
   \<and> calculateHypocrisyScore priorityLandlordTDs
       \<lparr> sm_name = ''Thomas Byrne'', sm_properties = 1, sm_anti_tenant_votes = 5,
         sm_hypocritical_votes = 5 \<rparr> \<in> {0..100}
   \<and> calculatePressurePriority (sample_integration []) (vd_anti_tenant_votes (sample_votes 5))
       (sample_td ''Fine Gael'' ''Dublin Bay South'' True 1) \<in> {1..10}"
  by (rule scores_clamped) (simp_all add: sample_td_def sample_votes_def)

section \<open>Tiering\<close>




section \<open>The three-way draw\<close>




section \<open>Conflict marking\<close>


section \<open>Entities without holdings\<close>




section \<open>The undefined methods\<close>

lemma integrate_tds_raises:
  assumes "(n, t) \<in> set entries" and "landlord_status (properties t)"
    and "getDetailedVotes this = None" and "calculateHypocrisyScoreFromVotes this = None"
  shows "integrate_tds double this clock random w entries = Inl TypeError"
  using assms(1)
proof (induction entries arbitrary: w)
  case Nil
  then show ?case by simp
next
  case (Cons e rest)
  obtain m u where e: "e = (m, u)" by (cases e)
  show ?case
  proof (cases "landlord_status (properties u)")
    case True
    then have "integrate_td double this clock random w m u = Inl TypeError"
      using assms(3,4)
      by (simp add: integrate_td_def enhanceVotingRecord_def generateRealisticVotingPattern_def
          split: option.split prod.split)
    then show ?thesis by (simp add: e)
  next
    case False
    with Cons.prems assms(2) e have "(n, t) \<in> set rest" by auto
    from Cons.IH [OF this] False show ?thesis
      by (simp add: e integrate_td_def)
  qed
qed

text \<open>
  Claim C1. On an instance of the class as written, both ways of building a landlord's
  voting record raise \<open>TypeError\<close>: the sourced one at \<open>getDetailedVotes\<close>, the generated
  one at \<open>calculateHypocrisyScoreFromVotes\<close>. So whenever the database holds a landlord,
  the integration raises \<open>TypeError\<close> and no report is produced.
\<close>

theorem landlord_entity_raises_TypeError:
  fixes names db votes margins
  defines "this \<equiv> EnhancedVotingIntegration names db votes margins"
  assumes "(n, t) \<in> set (tds db)" and "landlord_status (properties t)"
  shows "enhanceVotingRecord this clock w existingData t = Inl TypeError
       \<and> generateRealisticVotingPattern double this clock random w t = Inl TypeError
       \<and> integrate_td double this clock random w n t = Inl TypeError
       \<and> integrateVotingRecords double this clock random = Inl TypeError
       \<and> executeIntegration double this clock random = Inl TypeError"
proof -
  have slots: "getDetailedVotes this = None" "calculateHypocrisyScoreFromVotes this = None"
    and db: "completeTDDatabase this = db"
    by (simp_all add: this_def EnhancedVotingIntegration_def)
  have 1: "enhanceVotingRecord this clock w existingData t = Inl TypeError"
    by (simp add: enhanceVotingRecord_def slots)
  have 2: "generateRealisticVotingPattern double this clock random w t = Inl TypeError"
    by (simp add: generateRealisticVotingPattern_def slots split: prod.split)
  have 3: "integrate_td double this clock random w n t = Inl TypeError"
    using assms(3) slots
    by (simp add: integrate_td_def enhanceVotingRecord_def generateRealisticVotingPattern_def
        split: option.split prod.split)
  have 4: "integrateVotingRecords double this clock random = Inl TypeError"
    using integrate_tds_raises [OF assms(2,3) slots, of double clock random "(1, 0)"]
    by (simp add: integrateVotingRecords_def Let_def db)
  then have "executeIntegration double this clock random = Inl TypeError"
    by (simp add: executeIntegration_def)
  with 1 2 3 4 show ?thesis by simp
qed

theorem landlord_entity_raises_TypeError_witness:
  "(''Colm Burke'', sample_td ''Fine Gael'' ''Cork North-Central'' True 1)
      \<in> set (tds (sample_database
                   [(''Mary Black'', sample_td ''Independent'' ''Kerry'' False 0),
                    (''Colm Burke'', sample_td ''Fine Gael'' ''Cork North-Central'' True 1)]))
   \<and> landlord_status (properties (sample_td ''Fine Gael'' ''Cork North-Central'' True 1))
   \<and> integrateVotingRecords exact
        (EnhancedVotingIntegration []
           (sample_database
              [(''Mary Black'', sample_td ''Independent'' ''Kerry'' False 0),
               (''Colm Burke'', sample_td ''Fine Gael'' ''Cork North-Central'' True 1)])
           (Some (map_of [(''Colm Burke'', sample_votes 4)])) (Some sample_margins))
        (\<lambda>n. ''2025-06-01T10:00:00.000Z'') (\<lambda>n. 1 / 2) = Inl TypeError
   \<and> executeIntegration exact
        (EnhancedVotingIntegration []
           (sample_database
              [(''Mary Black'', sample_td ''Independent'' ''Kerry'' False 0),
               (''Colm Burke'', sample_td ''Fine Gael'' ''Cork North-Central'' True 1)])
           None (Some sample_margins))
        (\<lambda>n. ''2025-06-01T10:00:00.000Z'') (\<lambda>n. 1 / 2) = Inl TypeError"
proof -
  let ?db = "sample_database
              [(''Mary Black'', sample_td ''Independent'' ''Kerry'' False 0),
               (''Colm Burke'', sample_td ''Fine Gael'' ''Cork North-Central'' True 1)]"
  let ?t = "sample_td ''Fine Gael'' ''Cork North-Central'' True 1"
  have i: "(''Colm Burke'', ?t) \<in> set (tds ?db)"
    by (simp add: sample_database_def)
  have l: "landlord_status (properties ?t)"
    by (simp add: sample_td_def)
  from landlord_entity_raises_TypeError [OF i l, of "[]"
      "Some (map_of [(''Colm Burke'', sample_votes 4)])" "Some sample_margins"
      "\<lambda>n. ''2025-06-01T10:00:00.000Z''" _ _ exact "\<lambda>n. 1 / 2"]
    landlord_entity_raises_TypeError [OF i l, of "[]" None "Some sample_margins"
      "\<lambda>n. ''2025-06-01T10:00:00.000Z''" _ _ exact "\<lambda>n. 1 / 2"]
    i l
  show ?thesis by blast
qed

section \<open>The weights of the tracked votes\<close>

lemma generate_votes_weights:
  assumes "list_all2 (\<lambda>a b. b = a\<lparr> weight := weight b \<rparr>) xs ys"
  shows "snd (generate_votes double L random ys (vs', a, p, n))
       = snd (generate_votes double L random xs (vs, a, p, n))"
  using assms
proof (induction xs ys arbitrary: vs vs' a p n rule: list_all2_induct)
  case Nil
  then show ?case by simp
next
  case (Cons x xs y ys)
  show ?case
    by (cases "cast_vote double L (random n) a p") (simp add: Cons.IH)
qed

lemma integrate_td_weights:
  assumes el: "electoral_lookup this' = electoral_lookup this"
    and ex: "existing_lookup this' = existing_lookup this"
    and gd: "getDetailedVotes this' = getDetailedVotes this"
    and n': "calculateHypocrisyScoreFromVotes this' = None"
    and n: "calculateHypocrisyScoreFromVotes this = None"
  shows "integrate_td double this' clock random w n t = integrate_td double this clock random w n t"
proof -
  have s: "calculateEnhancedHypocrisyScore this' vd u = calculateEnhancedHypocrisyScore this vd u"
    for vd u
    by (simp add: calculateEnhancedHypocrisyScore_def el)
  have p: "calculatePressurePriority this' k u = calculatePressurePriority this k u" for k u
    by (simp add: calculatePressurePriority_def el)
  have e: "enhanceVotingRecord this' clock w d t = enhanceVotingRecord this clock w d t" for d
    by (simp add: enhanceVotingRecord_def s p gd split: option.split)
  have g: "generateRealisticVotingPattern double this' clock random w t = Inl TypeError"
    "generateRealisticVotingPattern double this clock random w t = Inl TypeError"
    by (simp_all add: generateRealisticVotingPattern_def n n' split: prod.split)
  have a: "addElectoralTargeting this' u = addElectoralTargeting this u" for u
    by (simp add: addElectoralTargeting_def el)
  show ?thesis
    unfolding integrate_td_def e g a ex ..
qed

lemma integrate_tds_weights:
  assumes "\<And>w n t. integrate_td double this' clock random w n t
                    = integrate_td double this clock random w n t"
  shows "integrate_tds double this' clock random w entries
       = integrate_tds double this clock random w entries"
proof (induction entries arbitrary: w)
  case Nil
  then show ?case by simp
next
  case (Cons e rest)
  obtain n t where e: "e = (n, t)" by (cases e)
  from Cons.IH show ?case
    by (simp add: e assms split: sum.split prod.split)
qed


text \<open>
  Claim C10. Two instances that differ only in the weights of their tracked votes give the
  same inconsistency score and the same priority on every entity, the generator gives the
  same tallies and the same priority from the same draws, and on the class as written
  (which has no \<open>calculateHypocrisyScoreFromVotes\<close>) the two integration runs give the
  same result.
\<close>

theorem weights_do_not_reach_scores:
  assumes "same_but_weights (housingVoteTargets this) (housingVoteTargets this')"
    and "this'\<lparr> housingVoteTargets := housingVoteTargets this \<rparr> = this"
  shows "calculateEnhancedHypocrisyScore this' vd t = calculateEnhancedHypocrisyScore this vd t
       \<and> calculatePressurePriority this' a t = calculatePressurePriority this a t
       \<and> map_sum id (\<lambda>(vr, w'). (pressure_campaign_priority vr, housing_votes vr, w'))
            (generateRealisticVotingPattern double this' clock random w t)
         = map_sum id (\<lambda>(vr, w'). (pressure_campaign_priority vr, housing_votes vr, w'))
            (generateRealisticVotingPattern double this clock random w t)
       \<and> (calculateHypocrisyScoreFromVotes this = None \<longrightarrow>
            integrateVotingRecords double this' clock random
              = integrateVotingRecords double this clock random)"
proof -
  have el: "electoral_lookup this' = electoral_lookup this"
    using arg_cong [OF assms(2), of electoralData] by (simp add: electoral_lookup_def fun_eq_iff)
  have ex: "existing_lookup this' = existing_lookup this"
    using arg_cong [OF assms(2), of existingVotingData] by (simp add: existing_lookup_def fun_eq_iff)
  have sl: "calculateHypocrisyScoreFromVotes this' = calculateHypocrisyScoreFromVotes this"
    using arg_cong [OF assms(2), of calculateHypocrisyScoreFromVotes] by simp
  have gd: "getDetailedVotes this' = getDetailedVotes this"
    using arg_cong [OF assms(2), of getDetailedVotes] by simp
  have db: "completeTDDatabase this' = completeTDDatabase this"
    using arg_cong [OF assms(2), of completeTDDatabase] by simp
  have nm: "landlordTDs this' = landlordTDs this"
    using arg_cong [OF assms(2), of landlordTDs] by simp
  have len: "length (housingVoteTargets this') = length (housingVoteTargets this)"
    using assms(1) by (simp add: same_but_weights_def list_all2_lengthD)
  have s: "calculateEnhancedHypocrisyScore this' vd t = calculateEnhancedHypocrisyScore this vd t"
    by (simp add: calculateEnhancedHypocrisyScore_def el)
  have p: "\<And>a. calculatePressurePriority this' a t = calculatePressurePriority this a t"
    by (simp add: calculatePressurePriority_def el)
  have g: "snd (generate_votes double (adjustedAntiTenantLikelihood double t) random
                  (housingVoteTargets this') ([], 0, 0, snd w))
         = snd (generate_votes double (adjustedAntiTenantLikelihood double t) random
                  (housingVoteTargets this) ([], 0, 0, snd w))"
    using assms(1) unfolding same_but_weights_def by (rule generate_votes_weights)
  have r: "map_sum id (\<lambda>(vr, w'). (pressure_campaign_priority vr, housing_votes vr, w'))
            (generateRealisticVotingPattern double this' clock random w t)
         = map_sum id (\<lambda>(vr, w'). (pressure_campaign_priority vr, housing_votes vr, w'))
            (generateRealisticVotingPattern double this clock random w t)"
    using g
    by (cases "generate_votes double (adjustedAntiTenantLikelihood double t) random
                  (housingVoteTargets this') ([], 0, 0, snd w)";
        cases "generate_votes double (adjustedAntiTenantLikelihood double t) random
                  (housingVoteTargets this) ([], 0, 0, snd w)")
       (simp add: generateRealisticVotingPattern_def sl len p split: option.split)
  have i: "integrateVotingRecords double this' clock random
          = integrateVotingRecords double this clock random"
    if none: "calculateHypocrisyScoreFromVotes this = None"
  proof -
    from none sl have none': "calculateHypocrisyScoreFromVotes this' = None" by simp
    have "integrate_tds double this' clock random (1, 0) (tds (completeTDDatabase this))
        = integrate_tds double this clock random (1, 0) (tds (completeTDDatabase this))"
      by (rule integrate_tds_weights) (rule integrate_td_weights [OF el ex gd none' none])
    then show ?thesis
      by (simp add: integrateVotingRecords_def Let_def db nm)
  qed
  from s p [of a] r i show ?thesis by (intro conjI impI)
qed


theorem weights_do_not_reach_scores_witness:
  "same_but_weights (housingVoteTargets (sample_integration []))
      (map (\<lambda>v. v\<lparr> weight := 1 \<rparr>) (housingVoteTargets (sample_integration [])))
   \<and> calculateEnhancedHypocrisyScore
        ((sample_integration [])
           \<lparr> housingVoteTargets :=
               map (\<lambda>v. v\<lparr> weight := 1 \<rparr>) (housingVoteTargets (sample_integration [])) \<rparr>)
        (sample_votes 3) (sample_td ''Fine Gael'' ''Cork North-Central'' True 6)
     = calculateEnhancedHypocrisyScore (sample_integration [])
        (sample_votes 3) (sample_td ''Fine Gael'' ''Cork North-Central'' True 6)
   \<and> calculatePressurePriority
        ((sample_integration [])
           \<lparr> housingVoteTargets :=
               map (\<lambda>v. v\<lparr> weight := 1 \<rparr>) (housingVoteTargets (sample_integration [])) \<rparr>)
        3 (sample_td ''Fine Gael'' ''Cork North-Central'' True 6)
     = calculatePressurePriority (sample_integration [])
        3 (sample_td ''Fine Gael'' ''Cork North-Central'' True 6)
   \<and> integrateVotingRecords exact
        ((sample_integration [])
           \<lparr> housingVoteTargets :=
               map (\<lambda>v. v\<lparr> weight := 1 \<rparr>) (housingVoteTargets (sample_integration [])) \<rparr>)
        (\<lambda>n. ''2025-06-01T10:00:00.000Z'') (\<lambda>n. 1 / 2)
     = integrateVotingRecords exact (sample_integration [])
        (\<lambda>n. ''2025-06-01T10:00:00.000Z'') (\<lambda>n. 1 / 2)"
proof -
  define a where "a = sample_integration []"
  define b where "b = a\<lparr> housingVoteTargets := map (\<lambda>v. v\<lparr> weight := 1 \<rparr>) (housingVoteTargets a) \<rparr>"
  have w: "same_but_weights (housingVoteTargets a)
      (map (\<lambda>v. v\<lparr> weight := 1 \<rparr>) (housingVoteTargets a))"
    by (simp add: same_but_weights_def list_all2_map2 list_all2_same)
  then have w': "same_but_weights (housingVoteTargets a) (housingVoteTargets b)"
    by (simp add: b_def)
  have r: "b\<lparr> housingVoteTargets := housingVoteTargets a \<rparr> = a"
    by (simp add: b_def)
  have n: "calculateHypocrisyScoreFromVotes a = None"
    by (simp add: a_def sample_integration_def EnhancedVotingIntegration_def)
  note T = weights_do_not_reach_scores [OF w' r, of "sample_votes 3"
      "sample_td ''Fine Gael'' ''Cork North-Central'' True 6" 3 exact
      "\<lambda>n. ''2025-06-01T10:00:00.000Z''" "\<lambda>n. 1 / 2" "(1, 0)"]
  have "same_but_weights (housingVoteTargets a)
          (map (\<lambda>v. v\<lparr> weight := 1 \<rparr>) (housingVoteTargets a))
     \<and> calculateEnhancedHypocrisyScore b (sample_votes 3)
          (sample_td ''Fine Gael'' ''Cork North-Central'' True 6)
       = calculateEnhancedHypocrisyScore a (sample_votes 3)
          (sample_td ''Fine Gael'' ''Cork North-Central'' True 6)
     \<and> calculatePressurePriority b 3 (sample_td ''Fine Gael'' ''Cork North-Central'' True 6)
       = calculatePressurePriority a 3 (sample_td ''Fine Gael'' ''Cork North-Central'' True 6)
     \<and> integrateVotingRecords exact b (\<lambda>n. ''2025-06-01T10:00:00.000Z'') (\<lambda>n. 1 / 2)
       = integrateVotingRecords exact a (\<lambda>n. ''2025-06-01T10:00:00.000Z'') (\<lambda>n. 1 / 2)"
    using w T [THEN conjunct1] T [THEN conjunct2, THEN conjunct1]
      T [THEN conjunct2, THEN conjunct2, THEN conjunct2, THEN mp, OF n]
    by (intro conjI)
  then show ?thesis
    unfolding a_def b_def .
qed

section \<open>The order of the tier lists\<close>

















section \<open>Entities without electoral data\<close>






section \<open>Running twice\<close>

text \<open>
  Claim C9 as stated fails: the report carries the time at which it was generated, so two
  runs on the same sourced input at different instants give different reports.
\<close>

theorem report_differs_with_clock:
  "generateTargetingReport exact ''2025-06-01T10:00:00.000Z'' sample_ranking
     \<noteq> generateTargetingReport exact ''2025-06-01T10:00:01.000Z'' sample_ranking"
  by (simp add: generateTargetingReport_def Let_def landlords_def sample_ranking_def
      sample_database_def scored_td_def)

lemma integrate_tds_sourced:
  assumes "\<forall>(n, t) \<in> set entries. landlord_status (properties t) \<longrightarrow> existing_lookup this n \<noteq> None"
  shows "integrate_tds double this clock random w entries
       = integrate_tds double this clock random' w entries"
  using assms
proof (induction entries arbitrary: w)
  case Nil
  then show ?case by simp
next
  case (Cons e rest)
  obtain n t where e: "e = (n, t)" by (cases e)
  have "integrate_td double this clock random w n t = integrate_td double this clock random' w n t"
    using Cons.prems by (auto simp: e integrate_td_def)
  with Cons show ?case by (simp add: e split: sum.split prod.split)
qed

text \<open>
  Claim C9, amended. Two reports on the same database differ at most in \<open>generated_at\<close>,
  and a run on sourced-only input does not depend on the random source: with the same
  readings of the clock, two runs give the same result.
\<close>

theorem report_reproducible_up_to_clock:
  "erase_generated_at (generateTargetingReport double now db)
     = erase_generated_at (generateTargetingReport double now' db)
   \<and> (sourced_only this \<longrightarrow>
        executeIntegration double this clock random = executeIntegration double this clock random')"
proof -
  have "erase_generated_at (generateTargetingReport double now db)
      = erase_generated_at (generateTargetingReport double now' db)"
    by (simp add: erase_generated_at_def generateTargetingReport_def Let_def)
  moreover have "executeIntegration double this clock random
      = executeIntegration double this clock random'"
    if "sourced_only this"
    using integrate_tds_sourced
      [of "tds (completeTDDatabase this)" this double clock random "(1, 0)" random'] that
    by (simp add: executeIntegration_def integrateVotingRecords_def Let_def sourced_only_def)
  ultimately show ?thesis by blast
qed

theorem report_reproducible_up_to_clock_witness:
  "sourced_only sample_sourced
   \<and> executeIntegration exact sample_sourced (\<lambda>n. ''2025-06-01T10:00:00.000Z'') (\<lambda>n. 0)
     = executeIntegration exact sample_sourced (\<lambda>n. ''2025-06-01T10:00:00.000Z'') (\<lambda>n. 99 / 100)
   \<and> (\<exists>out. executeIntegration exact sample_sourced (\<lambda>n. ''2025-06-01T10:00:00.000Z'') (\<lambda>n. 0)
               = Inr out)"
proof -
  have s: "sourced_only sample_sourced"
    by (simp add: sourced_only_def sample_sourced_def EnhancedVotingIntegration_def
        sample_database_def sample_td_def existing_lookup_def)
  have "\<exists>out. executeIntegration exact sample_sourced (\<lambda>n. ''2025-06-01T10:00:00.000Z'') (\<lambda>n. 0)
               = Inr out"
    by (simp add: executeIntegration_def integrateVotingRecords_def integrate_td_def
        enhanceVotingRecord_def sample_sourced_def EnhancedVotingIntegration_def
        sample_database_def sample_td_def existing_lookup_def Let_def
        generateTargetingReport_def landlords_def)
  with s report_reproducible_up_to_clock
    [of exact _ _ _ sample_sourced "\<lambda>n. ''2025-06-01T10:00:00.000Z''" "\<lambda>n. 0" "\<lambda>n. 99 / 100"]
  show ?thesis by blast
qed

end
